theory Spec2Isabelle
  imports Main "HOL-Library.Word"
begin

unbundle bit_operations_syntax

section \<open>Data model of draw.c\<close>

text \<open>
  \<^verbatim>\<open>UINT\<close> is an unsigned 32-bit integer. \<^verbatim>\<open>LONG\<close> (the coordinates of
  \<^verbatim>\<open>RECT\<close> and \<^verbatim>\<open>POINT\<close>) and \<^verbatim>\<open>int\<close> are 32-bit two's complement
  integers: they are words read with \<open>sint\<close>, compared with \<open><s\<close>, and \<open>+\<close> and \<open>-\<close>
  wrap around. \<^verbatim>\<open>COLORREF\<close> is a 32-bit value. The entries of the colour tables are
  \<^verbatim>\<open>signed char\<close> values between -1 and 22, on which the code does no arithmetic: they
  are integers.
\<close>

type_synonym UINT = "32 word"
type_synonym LONG = "32 word"
type_synonym COLORREF = "32 word"

record RECT =
  rc_left :: LONG
  rc_top :: LONG
  rc_right :: LONG
  rc_bottom :: LONG

datatype POINT = POINT (pt_x: LONG) (pt_y: LONG)

text \<open>
  The pens and brushes the two functions select: the stock objects
  \<^verbatim>\<open>GetStockObject(NULL_PEN)\<close>, \<^verbatim>\<open>GetStockObject(DC_PEN)\<close>,
  \<^verbatim>\<open>GetStockObject(DC_BRUSH)\<close>, the brush \<^verbatim>\<open>GetSysColorBrush(nIndex)\<close>, and any
  other handle the caller had selected before the call.
\<close>

datatype HPEN = NULL_PEN | DC_PEN | OtherPen nat

datatype HBRUSH = DC_BRUSH | SysColorBrush int | OtherBrush nat

text \<open>
  What a call paints, in the order of the GDI calls: \<^verbatim>\<open>LineTo\<close> with the selected pen,
  the colour of the DC pen, the current position and the end point (GDI paints nothing
  with the null pen, and never the end point); \<^verbatim>\<open>FillRect\<close> with its rectangle and
  brush; \<^verbatim>\<open>Polygon\<close> with the selected pen and brush, the DC pen and DC brush colours and
  its points (\<open>None\<close> when the array \<^verbatim>\<open>Points\<close> was never assigned).
\<close>

datatype gdi_op =
    is_LineOp: LineOp (line_pen: HPEN) (line_color: COLORREF) (line_from: POINT) (line_to: POINT)
  | is_FillRectOp: FillRectOp RECT HBRUSH
  | PolygonOp HPEN COLORREF HBRUSH COLORREF "POINT list option"

text \<open>The part of the device context \<^verbatim>\<open>hdc\<close> that the two functions read and write.\<close>

record DC =
  dc_pos :: POINT
  dc_pen :: HPEN
  dc_brush :: HBRUSH
  dc_pen_color :: COLORREF
  dc_brush_color :: COLORREF
  dc_drawn :: "gdi_op list"

definition MoveToEx :: "DC \<Rightarrow> LONG \<Rightarrow> LONG \<Rightarrow> DC" where
  "MoveToEx hdc x y = hdc\<lparr>dc_pos := POINT x y\<rparr>"

definition LineTo :: "DC \<Rightarrow> LONG \<Rightarrow> LONG \<Rightarrow> DC" where
  "LineTo hdc x y =
     hdc\<lparr>dc_drawn := dc_drawn hdc @ [LineOp (dc_pen hdc) (dc_pen_color hdc) (dc_pos hdc) (POINT x y)],
         dc_pos := POINT x y\<rparr>"

definition SelectPen :: "DC \<Rightarrow> HPEN \<Rightarrow> DC" where
  "SelectPen hdc p = hdc\<lparr>dc_pen := p\<rparr>"

definition SelectBrush :: "DC \<Rightarrow> HBRUSH \<Rightarrow> DC" where
  "SelectBrush hdc b = hdc\<lparr>dc_brush := b\<rparr>"

definition SetDCPenColor :: "DC \<Rightarrow> COLORREF \<Rightarrow> DC" where
  "SetDCPenColor hdc c = hdc\<lparr>dc_pen_color := c\<rparr>"

definition SetDCBrushColor :: "DC \<Rightarrow> COLORREF \<Rightarrow> DC" where
  "SetDCBrushColor hdc c = hdc\<lparr>dc_brush_color := c\<rparr>"

definition FillRect :: "DC \<Rightarrow> RECT \<Rightarrow> HBRUSH \<Rightarrow> DC" where
  "FillRect hdc r b = hdc\<lparr>dc_drawn := dc_drawn hdc @ [FillRectOp r b]\<rparr>"

definition Polygon :: "DC \<Rightarrow> POINT list option \<Rightarrow> DC" where
  "Polygon hdc pts =
     hdc\<lparr>dc_drawn := dc_drawn hdc @
        [PolygonOp (dc_pen hdc) (dc_pen_color hdc) (dc_brush hdc) (dc_brush_color hdc) pts]\<rparr>"

subsection \<open>Constants of winuser.h\<close>

text \<open>
  The header that declares the flags is not among the source files. Their values are
  those of the Win32 interface. They agree with the source: the colour tables have 16
  entries and are read at \<^verbatim>\<open>uType & (BDR_INNER|BDR_OUTER)\<close>; the pen selection table in
  the comment above \<^verbatim>\<open>IntDrawRectEdge\<close> lists \<^verbatim>\<open>uType\<close> from 0000 to 1111 and numbers
  the colours 15, 16, 20, 21 and 22; the case labels of the two \<^verbatim>\<open>switch\<close> statements of
  \<^verbatim>\<open>IntDrawDiagEdge\<close> are pairwise distinct.
\<close>

definition BDR_RAISEDOUTER :: UINT where "BDR_RAISEDOUTER = 0x0001"
definition BDR_SUNKENOUTER :: UINT where "BDR_SUNKENOUTER = 0x0002"
definition BDR_RAISEDINNER :: UINT where "BDR_RAISEDINNER = 0x0004"
definition BDR_SUNKENINNER :: UINT where "BDR_SUNKENINNER = 0x0008"
definition BDR_OUTER :: UINT where "BDR_OUTER = 0x0003"
definition BDR_INNER :: UINT where "BDR_INNER = 0x000c"
definition EDGE_RAISED :: UINT where "EDGE_RAISED = (BDR_RAISEDOUTER OR BDR_RAISEDINNER)"
definition EDGE_SUNKEN :: UINT where "EDGE_SUNKEN = (BDR_SUNKENOUTER OR BDR_SUNKENINNER)"

definition BF_LEFT :: UINT where "BF_LEFT = 0x0001"
definition BF_TOP :: UINT where "BF_TOP = 0x0002"
definition BF_RIGHT :: UINT where "BF_RIGHT = 0x0004"
definition BF_BOTTOM :: UINT where "BF_BOTTOM = 0x0008"
definition BF_TOPLEFT :: UINT where "BF_TOPLEFT = (BF_TOP OR BF_LEFT)"
definition BF_TOPRIGHT :: UINT where "BF_TOPRIGHT = (BF_TOP OR BF_RIGHT)"
definition BF_BOTTOMLEFT :: UINT where "BF_BOTTOMLEFT = (BF_BOTTOM OR BF_LEFT)"
definition BF_BOTTOMRIGHT :: UINT where "BF_BOTTOMRIGHT = (BF_BOTTOM OR BF_RIGHT)"
definition BF_RECT :: UINT where "BF_RECT = (BF_LEFT OR BF_TOP OR BF_RIGHT OR BF_BOTTOM)"
definition BF_DIAGONAL :: UINT where "BF_DIAGONAL = 0x0010"
definition BF_DIAGONAL_ENDTOPRIGHT :: UINT where
  "BF_DIAGONAL_ENDTOPRIGHT = (BF_DIAGONAL OR BF_TOP OR BF_RIGHT)"
definition BF_DIAGONAL_ENDTOPLEFT :: UINT where
  "BF_DIAGONAL_ENDTOPLEFT = (BF_DIAGONAL OR BF_TOP OR BF_LEFT)"
definition BF_DIAGONAL_ENDBOTTOMLEFT :: UINT where
  "BF_DIAGONAL_ENDBOTTOMLEFT = (BF_DIAGONAL OR BF_BOTTOM OR BF_LEFT)"
definition BF_DIAGONAL_ENDBOTTOMRIGHT :: UINT where
  "BF_DIAGONAL_ENDBOTTOMRIGHT = (BF_DIAGONAL OR BF_BOTTOM OR BF_RIGHT)"
definition BF_MIDDLE :: UINT where "BF_MIDDLE = 0x0800"
definition BF_SOFT :: UINT where "BF_SOFT = 0x1000"
definition BF_ADJUST :: UINT where "BF_ADJUST = 0x2000"
definition BF_FLAT :: UINT where "BF_FLAT = 0x4000"
definition BF_MONO :: UINT where "BF_MONO = 0x8000"

definition COLOR_WINDOW :: int where "COLOR_WINDOW = 5"
definition COLOR_WINDOWFRAME :: int where "COLOR_WINDOWFRAME = 6"
definition COLOR_BTNFACE :: int where "COLOR_BTNFACE = 15"
definition COLOR_BTNSHADOW :: int where "COLOR_BTNSHADOW = 16"
definition COLOR_BTNHIGHLIGHT :: int where "COLOR_BTNHIGHLIGHT = 20"
definition COLOR_3DDKSHADOW :: int where "COLOR_3DDKSHADOW = 21"
definition COLOR_3DLIGHT :: int where "COLOR_3DLIGHT = 22"

subsection \<open>The colour tables\<close>

definition LTInnerNormal :: "int list" where
  "LTInnerNormal =
     [-1, -1, -1, -1,
      -1, COLOR_BTNHIGHLIGHT, COLOR_BTNHIGHLIGHT, -1,
      -1, COLOR_3DDKSHADOW, COLOR_3DDKSHADOW, -1,
      -1, -1, -1, -1]"

definition LTOuterNormal :: "int list" where
  "LTOuterNormal =
     [-1, COLOR_3DLIGHT, COLOR_BTNSHADOW, -1,
      COLOR_BTNHIGHLIGHT, COLOR_3DLIGHT, COLOR_BTNSHADOW, -1,
      COLOR_3DDKSHADOW, COLOR_3DLIGHT, COLOR_BTNSHADOW, -1,
      -1, COLOR_3DLIGHT, COLOR_BTNSHADOW, -1]"

definition RBInnerNormal :: "int list" where
  "RBInnerNormal =
     [-1, -1, -1, -1,
      -1, COLOR_BTNSHADOW, COLOR_BTNSHADOW, -1,
      -1, COLOR_3DLIGHT, COLOR_3DLIGHT, -1,
      -1, -1, -1, -1]"

definition RBOuterNormal :: "int list" where
  "RBOuterNormal =
     [-1, COLOR_3DDKSHADOW, COLOR_BTNHIGHLIGHT, -1,
      COLOR_BTNSHADOW, COLOR_3DDKSHADOW, COLOR_BTNHIGHLIGHT, -1,
      COLOR_3DLIGHT, COLOR_3DDKSHADOW, COLOR_BTNHIGHLIGHT, -1,
      -1, COLOR_3DDKSHADOW, COLOR_BTNHIGHLIGHT, -1]"

definition LTInnerSoft :: "int list" where
  "LTInnerSoft =
     [-1, -1, -1, -1,
      -1, COLOR_3DLIGHT, COLOR_3DLIGHT, -1,
      -1, COLOR_BTNSHADOW, COLOR_BTNSHADOW, -1,
      -1, -1, -1, -1]"

definition LTOuterSoft :: "int list" where
  "LTOuterSoft =
     [-1, COLOR_BTNHIGHLIGHT, COLOR_3DDKSHADOW, -1,
      COLOR_3DLIGHT, COLOR_BTNHIGHLIGHT, COLOR_3DDKSHADOW, -1,
      COLOR_BTNSHADOW, COLOR_BTNHIGHLIGHT, COLOR_3DDKSHADOW, -1,
      -1, COLOR_BTNHIGHLIGHT, COLOR_3DDKSHADOW, -1]"

definition RBInnerSoft :: "int list" where
  "RBInnerSoft = RBInnerNormal"

definition RBOuterSoft :: "int list" where
  "RBOuterSoft = RBOuterNormal"

definition LTRBOuterMono :: "int list" where
  "LTRBOuterMono =
     [-1, COLOR_WINDOWFRAME, COLOR_WINDOWFRAME, COLOR_WINDOWFRAME,
      COLOR_WINDOW, COLOR_WINDOWFRAME, COLOR_WINDOWFRAME, COLOR_WINDOWFRAME,
      COLOR_WINDOW, COLOR_WINDOWFRAME, COLOR_WINDOWFRAME, COLOR_WINDOWFRAME,
      COLOR_WINDOW, COLOR_WINDOWFRAME, COLOR_WINDOWFRAME, COLOR_WINDOWFRAME]"

definition LTRBInnerMono :: "int list" where
  "LTRBInnerMono =
     [-1, -1, -1, -1,
      -1, COLOR_WINDOW, COLOR_WINDOW, COLOR_WINDOW,
      -1, COLOR_WINDOW, COLOR_WINDOW, COLOR_WINDOW,
      -1, COLOR_WINDOW, COLOR_WINDOW, COLOR_WINDOW]"

definition LTRBOuterFlat :: "int list" where
  "LTRBOuterFlat =
     [-1, COLOR_BTNSHADOW, COLOR_BTNSHADOW, COLOR_BTNSHADOW,
      COLOR_BTNFACE, COLOR_BTNSHADOW, COLOR_BTNSHADOW, COLOR_BTNSHADOW,
      COLOR_BTNFACE, COLOR_BTNSHADOW, COLOR_BTNSHADOW, COLOR_BTNSHADOW,
      COLOR_BTNFACE, COLOR_BTNSHADOW, COLOR_BTNSHADOW, COLOR_BTNSHADOW]"

definition LTRBInnerFlat :: "int list" where
  "LTRBInnerFlat =
     [-1, -1, -1, -1,
      -1, COLOR_BTNFACE, COLOR_BTNFACE, COLOR_BTNFACE,
      -1, COLOR_BTNFACE, COLOR_BTNFACE, COLOR_BTNFACE,
      -1, COLOR_BTNFACE, COLOR_BTNFACE, COLOR_BTNFACE]"

section \<open>The two renderers\<close>

text \<open>
  A table read \<^verbatim>\<open>Table[uType & (BDR_INNER|BDR_OUTER)]\<close>. The index is below 16, the
  length of every table (lemma \<open>edge_index_less\<close> below), so the read is in range.
\<close>

definition edge_index :: "UINT \<Rightarrow> nat" where
  "edge_index uType = unat (uType AND (BDR_INNER OR BDR_OUTER))"

text \<open>The initialiser of \<^verbatim>\<open>retval\<close>, the same expression in both functions.\<close>

definition edge_retval :: "UINT \<Rightarrow> UINT \<Rightarrow> bool" where
  "edge_retval uType uFlags =
     (\<not> ((uType AND BDR_INNER = BDR_INNER \<or> uType AND BDR_OUTER = BDR_OUTER)
         \<and> \<not> (uFlags AND (BF_FLAT OR BF_MONO) \<noteq> 0)))"

text \<open>The initialiser of \<^verbatim>\<open>add\<close>, the same expression in both functions.\<close>

definition edge_add :: "UINT \<Rightarrow> LONG" where
  "edge_add uType =
     (if LTRBInnerMono ! edge_index uType \<noteq> -1 then 1 else 0)
     + (if LTRBOuterMono ! edge_index uType \<noteq> -1 then 1 else 0)"

text \<open>
  ``Determine the colors of the edges'' in \<^verbatim>\<open>IntDrawRectEdge\<close>:
  \<^verbatim>\<open>(LTInnerI, LTOuterI, RBInnerI, RBOuterI)\<close>.
\<close>

definition rect_edge_colors :: "UINT \<Rightarrow> UINT \<Rightarrow> int \<times> int \<times> int \<times> int" where
  "rect_edge_colors uType uFlags =
     (if uFlags AND BF_MONO \<noteq> 0 then
        (LTRBInnerMono ! edge_index uType, LTRBOuterMono ! edge_index uType,
         LTRBInnerMono ! edge_index uType, LTRBOuterMono ! edge_index uType)
      else if uFlags AND BF_FLAT \<noteq> 0 then
        (let LTInnerI = LTRBInnerFlat ! edge_index uType;
             LTOuterI = LTRBOuterFlat ! edge_index uType
         in if LTInnerI \<noteq> -1 then (COLOR_BTNFACE, LTOuterI, COLOR_BTNFACE, LTOuterI)
            else (LTInnerI, LTOuterI, LTInnerI, LTOuterI))
      else if uFlags AND BF_SOFT \<noteq> 0 then
        (LTInnerSoft ! edge_index uType, LTOuterSoft ! edge_index uType,
         RBInnerSoft ! edge_index uType, RBOuterSoft ! edge_index uType)
      else
        (LTInnerNormal ! edge_index uType, LTOuterNormal ! edge_index uType,
         RBInnerNormal ! edge_index uType, RBOuterNormal ! edge_index uType))"

text \<open>\<^verbatim>\<open>InnerPen = GetStockObject(NULL_PEN); if (InnerI != -1) InnerPen = GetStockObject(DC_PEN);\<close>\<close>

definition pen_of :: "int \<Rightarrow> HPEN" where
  "pen_of I = (if I \<noteq> -1 then DC_PEN else NULL_PEN)"

text \<open>\<^verbatim>\<open>int XYpenplus = 0; if ((uFlags & BF_XY) == BF_XY) XYpenplus = 1;\<close>\<close>

definition penplus :: "UINT \<Rightarrow> UINT \<Rightarrow> LONG" where
  "penplus uFlags corner = (if uFlags AND corner = corner then 1 else 0)"

text \<open>``Draw the outer edge'' in \<^verbatim>\<open>IntDrawRectEdge\<close>.\<close>

definition draw_outer_edge ::
  "(int \<Rightarrow> COLORREF) \<Rightarrow> DC \<Rightarrow> RECT \<Rightarrow> UINT \<Rightarrow> int \<Rightarrow> int \<Rightarrow> DC" where
  "draw_outer_edge GetSysColor hdc0 InnerRect uFlags LTOuterI RBOuterI =
     (let hdc = SelectPen hdc0 (pen_of LTOuterI);
          hdc = SetDCPenColor hdc (GetSysColor LTOuterI);
          hdc = (if uFlags AND BF_TOP \<noteq> 0
                 then LineTo (MoveToEx hdc (rc_left InnerRect) (rc_top InnerRect))
                        (rc_right InnerRect) (rc_top InnerRect)
                 else hdc);
          hdc = (if uFlags AND BF_LEFT \<noteq> 0
                 then LineTo (MoveToEx hdc (rc_left InnerRect) (rc_top InnerRect))
                        (rc_left InnerRect) (rc_bottom InnerRect)
                 else hdc);
          hdc = SelectPen hdc (pen_of RBOuterI);
          hdc = SetDCPenColor hdc (GetSysColor RBOuterI);
          hdc = (if uFlags AND BF_BOTTOM \<noteq> 0
                 then LineTo (MoveToEx hdc (rc_left InnerRect) (rc_bottom InnerRect - 1))
                        (rc_right InnerRect) (rc_bottom InnerRect - 1)
                 else hdc);
          hdc = (if uFlags AND BF_RIGHT \<noteq> 0
                 then LineTo (MoveToEx hdc (rc_right InnerRect - 1) (rc_top InnerRect))
                        (rc_right InnerRect - 1) (rc_bottom InnerRect)
                 else hdc)
      in hdc)"

text \<open>``Draw the inner edge'' in \<^verbatim>\<open>IntDrawRectEdge\<close>.\<close>

definition draw_inner_edge ::
  "(int \<Rightarrow> COLORREF) \<Rightarrow> DC \<Rightarrow> RECT \<Rightarrow> UINT \<Rightarrow> int \<Rightarrow> int \<Rightarrow> DC" where
  "draw_inner_edge GetSysColor hdc0 InnerRect uFlags LTInnerI RBInnerI =
     (let LBpenplus = penplus uFlags BF_BOTTOMLEFT;
          RTpenplus = penplus uFlags BF_TOPRIGHT;
          RBpenplus = penplus uFlags BF_BOTTOMRIGHT;
          LTpenplus = penplus uFlags BF_TOPLEFT;
          hdc = SelectPen hdc0 (pen_of LTInnerI);
          hdc = SetDCPenColor hdc (GetSysColor LTInnerI);
          hdc = (if uFlags AND BF_TOP \<noteq> 0
                 then LineTo (MoveToEx hdc (rc_left InnerRect + LTpenplus) (rc_top InnerRect + 1))
                        (rc_right InnerRect - RTpenplus) (rc_top InnerRect + 1)
                 else hdc);
          hdc = (if uFlags AND BF_LEFT \<noteq> 0
                 then LineTo (MoveToEx hdc (rc_left InnerRect + 1) (rc_top InnerRect + LTpenplus))
                        (rc_left InnerRect + 1) (rc_bottom InnerRect - LBpenplus)
                 else hdc);
          hdc = SelectPen hdc (pen_of RBInnerI);
          hdc = SetDCPenColor hdc (GetSysColor RBInnerI);
          hdc = (if uFlags AND BF_BOTTOM \<noteq> 0
                 then LineTo (MoveToEx hdc (rc_left InnerRect + LBpenplus) (rc_bottom InnerRect - 2))
                        (rc_right InnerRect - RBpenplus) (rc_bottom InnerRect - 2)
                 else hdc);
          hdc = (if uFlags AND BF_RIGHT \<noteq> 0
                 then LineTo (MoveToEx hdc (rc_right InnerRect - 2) (rc_top InnerRect + RTpenplus))
                        (rc_right InnerRect - 2) (rc_bottom InnerRect - RBpenplus)
                 else hdc)
      in hdc)"

text \<open>
  The four statements \<^verbatim>\<open>if (uFlags & BF_LEFT) rc->left += add;\<close> ... that both functions
  apply to a rectangle.
\<close>

definition shrink_rect :: "RECT \<Rightarrow> UINT \<Rightarrow> LONG \<Rightarrow> RECT" where
  "shrink_rect r uFlags add =
     (let r = (if uFlags AND BF_LEFT \<noteq> 0 then r\<lparr>rc_left := rc_left r + add\<rparr> else r);
          r = (if uFlags AND BF_RIGHT \<noteq> 0 then r\<lparr>rc_right := rc_right r - add\<rparr> else r);
          r = (if uFlags AND BF_TOP \<noteq> 0 then r\<lparr>rc_top := rc_top r + add\<rparr> else r);
          r = (if uFlags AND BF_BOTTOM \<noteq> 0 then r\<lparr>rc_bottom := rc_bottom r - add\<rparr> else r)
      in r)"

text \<open>
  \<^verbatim>\<open>IntDrawRectEdge(hdc, rc, uType, uFlags)\<close>: the value returned, the caller's rectangle
  \<^verbatim>\<open>*rc\<close> on return and the device context on return. \<open>GetSysColor\<close> is the system's
  colour of a colour index.
\<close>

definition IntDrawRectEdge ::
  "(int \<Rightarrow> COLORREF) \<Rightarrow> DC \<Rightarrow> RECT \<Rightarrow> UINT \<Rightarrow> UINT \<Rightarrow> bool \<times> RECT \<times> DC" where
  "IntDrawRectEdge GetSysColor hdc0 rc uType uFlags =
     (let InnerRect = rc;
          retval = edge_retval uType uFlags;
          SavePen = dc_pen hdc0;
          hdc = SelectPen hdc0 NULL_PEN;
          (LTInnerI, LTOuterI, RBInnerI, RBOuterI) = rect_edge_colors uType uFlags;
          hdc = (if uFlags AND BF_MIDDLE \<noteq> 0 \<and> retval
                 then FillRect hdc InnerRect
                        (SysColorBrush (if uFlags AND BF_MONO \<noteq> 0 then COLOR_WINDOW else COLOR_BTNFACE))
                 else hdc);
          SavePoint = dc_pos hdc;
          hdc = MoveToEx hdc 0 0;
          hdc = draw_outer_edge GetSysColor hdc InnerRect uFlags LTOuterI RBOuterI;
          hdc = draw_inner_edge GetSysColor hdc InnerRect uFlags LTInnerI RBInnerI;
          rc = (if (uFlags AND BF_MIDDLE \<noteq> 0 \<and> retval) \<or> uFlags AND BF_ADJUST \<noteq> 0
                then (let InnerRect = shrink_rect InnerRect uFlags (edge_add uType)
                      in if uFlags AND BF_ADJUST \<noteq> 0 then InnerRect else rc)
                else rc);
          hdc = SelectPen hdc SavePen;
          hdc = MoveToEx hdc (pt_x SavePoint) (pt_y SavePoint)
      in (retval, rc, hdc))"

text \<open>``Determine the colors of the edges'' in \<^verbatim>\<open>IntDrawDiagEdge\<close>: \<^verbatim>\<open>(InnerI, OuterI)\<close>.\<close>

definition diag_edge_colors :: "UINT \<Rightarrow> UINT \<Rightarrow> int \<times> int" where
  "diag_edge_colors uType uFlags =
     (if uFlags AND BF_MONO \<noteq> 0 then
        (LTRBInnerMono ! edge_index uType, LTRBOuterMono ! edge_index uType)
      else if uFlags AND BF_FLAT \<noteq> 0 then
        (LTRBInnerFlat ! edge_index uType, LTRBOuterFlat ! edge_index uType)
      else if uFlags AND BF_SOFT \<noteq> 0 then
        (if uFlags AND BF_BOTTOM \<noteq> 0
         then (RBInnerSoft ! edge_index uType, RBOuterSoft ! edge_index uType)
         else (LTInnerSoft ! edge_index uType, LTOuterSoft ! edge_index uType))
      else
        (if uFlags AND BF_BOTTOM \<noteq> 0
         then (RBInnerNormal ! edge_index uType, RBOuterNormal ! edge_index uType)
         else (LTInnerNormal ! edge_index uType, LTOuterNormal ! edge_index uType)))"

text \<open>
  The first \<^verbatim>\<open>switch(uFlags & BF_RECT)\<close> of \<^verbatim>\<open>IntDrawDiagEdge\<close>:
  \<^verbatim>\<open>(spx, spy, epx, epy)\<close>, which are 0 before it.
\<close>

definition diag_endpoints :: "RECT \<Rightarrow> UINT \<Rightarrow> LONG \<Rightarrow> LONG \<times> LONG \<times> LONG \<times> LONG" where
  "diag_endpoints rc uFlags SmallDiam =
     (let sel = uFlags AND BF_RECT in
      if sel = 0 \<or> sel = BF_LEFT \<or> sel = BF_BOTTOM \<or> sel = BF_BOTTOMLEFT then
        (let epx = rc_left rc - 1; spx = epx + SmallDiam;
             epy = rc_bottom rc; spy = epy - SmallDiam
         in (spx, spy, epx, epy))
      else if sel = BF_TOPLEFT \<or> sel = BF_BOTTOMRIGHT then
        (let epx = rc_left rc - 1; spx = epx + SmallDiam;
             epy = rc_top rc - 1; spy = epy + SmallDiam
         in (spx, spy, epx, epy))
      else if sel = BF_TOP \<or> sel = BF_RIGHT \<or> sel = BF_TOPRIGHT
            \<or> sel = (BF_RIGHT OR BF_LEFT) \<or> sel = (BF_RIGHT OR BF_LEFT OR BF_TOP)
            \<or> sel = (BF_BOTTOM OR BF_TOP) \<or> sel = (BF_BOTTOM OR BF_TOP OR BF_LEFT)
            \<or> sel = (BF_BOTTOMRIGHT OR BF_LEFT) \<or> sel = (BF_BOTTOMRIGHT OR BF_TOP)
            \<or> sel = BF_RECT then
        (let spx = rc_left rc; epx = spx + SmallDiam;
             spy = rc_bottom rc - 1; epy = spy - SmallDiam
         in (spx, spy, epx, epy))
      else (0, 0, 0, 0))"

text \<open>
  The second \<^verbatim>\<open>switch(uFlags & (BF_RECT|BF_DIAGONAL))\<close> of \<^verbatim>\<open>IntDrawDiagEdge\<close>: the
  inner line, and the array \<^verbatim>\<open>Points\<close>, which stays unassigned when no label matches.
\<close>

definition diag_inner_edge ::
  "DC \<Rightarrow> RECT \<Rightarrow> UINT \<Rightarrow> LONG \<Rightarrow> LONG \<times> LONG \<times> LONG \<times> LONG \<Rightarrow> DC \<times> POINT list option" where
  "diag_inner_edge hdc rc uFlags add ends =
     (let (spx, spy, epx, epy) = ends;
          sel = uFlags AND (BF_RECT OR BF_DIAGONAL) in
      if sel = BF_DIAGONAL_ENDBOTTOMLEFT \<or> sel = (BF_DIAGONAL OR BF_BOTTOM)
         \<or> sel = BF_DIAGONAL \<or> sel = (BF_DIAGONAL OR BF_LEFT) then
        (let hdc = LineTo (MoveToEx hdc (spx - 1) spy) epx (epy - 1);
             P0 = POINT (spx - add) spy;
             P1 = POINT (rc_left rc) (rc_top rc);
             P2 = POINT (epx + 1) (epy - 1 - add)
         in (hdc, Some [P0, P1, P2, P2]))
      else if sel = BF_DIAGONAL_ENDBOTTOMRIGHT then
        (let hdc = LineTo (MoveToEx hdc (spx - 1) spy) epx (epy + 1);
             P0 = POINT (spx - add) spy;
             P1 = POINT (rc_left rc) (rc_bottom rc - 1);
             P2 = POINT (epx + 1) (epy + 1 + add)
         in (hdc, Some [P0, P1, P2, P2]))
      else if sel = (BF_DIAGONAL OR BF_BOTTOM OR BF_RIGHT OR BF_TOP)
            \<or> sel = (BF_DIAGONAL OR BF_BOTTOM OR BF_RIGHT OR BF_TOP OR BF_LEFT)
            \<or> sel = BF_DIAGONAL_ENDTOPRIGHT
            \<or> sel = (BF_DIAGONAL OR BF_RIGHT OR BF_TOP OR BF_LEFT) then
        (let hdc = LineTo (MoveToEx hdc (spx + 1) spy) epx (epy + 1);
             P0 = POINT (epx - 1) (epy + 1 + add);
             P1 = POINT (rc_right rc - 1) (rc_top rc + add);
             P2 = POINT (rc_right rc - 1) (rc_bottom rc - 1);
             P3 = POINT (spx + add) spy
         in (hdc, Some [P0, P1, P2, P3]))
      else if sel = BF_DIAGONAL_ENDTOPLEFT then
        (let hdc = LineTo (MoveToEx hdc spx (spy - 1)) (epx + 1) epy;
             P0 = POINT (epx + 1 + add) (epy + 1);
             P1 = POINT (rc_right rc - 1) (rc_top rc);
             P2 = POINT (rc_right rc - 1) (rc_bottom rc - 1 - add);
             P3 = POINT spx (spy - add)
         in (hdc, Some [P0, P1, P2, P3]))
      else if sel = (BF_DIAGONAL OR BF_TOP) \<or> sel = (BF_DIAGONAL OR BF_BOTTOM OR BF_TOP)
            \<or> sel = (BF_DIAGONAL OR BF_BOTTOM OR BF_TOP OR BF_LEFT) then
        (let hdc = LineTo (MoveToEx hdc (spx + 1) (spy - 1)) epx epy;
             P0 = POINT (epx - 1) (epy + 1);
             P1 = POINT (rc_right rc - 1) (rc_top rc);
             P2 = POINT (rc_right rc - 1) (rc_bottom rc - 1 - add);
             P3 = POINT (spx + add) (spy - add)
         in (hdc, Some [P0, P1, P2, P3]))
      else if sel = (BF_DIAGONAL OR BF_RIGHT) \<or> sel = (BF_DIAGONAL OR BF_RIGHT OR BF_LEFT)
            \<or> sel = (BF_DIAGONAL OR BF_RIGHT OR BF_LEFT OR BF_BOTTOM) then
        (let hdc = LineTo (MoveToEx hdc spx spy) (epx - 1) (epy + 1);
             P0 = POINT spx spy;
             P1 = POINT (rc_left rc) (rc_top rc + add);
             P2 = POINT (epx - 1 - add) (epy + 1 + add)
         in (hdc, Some [P0, P1, P2, P2]))
      else (hdc, None))"

text \<open>
  \<^verbatim>\<open>IntDrawDiagEdge(hdc, rc, uType, uFlags)\<close>: the value returned, the caller's rectangle
  \<^verbatim>\<open>*rc\<close> on return and the device context on return.
\<close>

definition IntDrawDiagEdge ::
  "(int \<Rightarrow> COLORREF) \<Rightarrow> DC \<Rightarrow> RECT \<Rightarrow> UINT \<Rightarrow> UINT \<Rightarrow> bool \<times> RECT \<times> DC" where
  "IntDrawDiagEdge GetSysColor hdc0 rc uType uFlags =
     (let Width = rc_right rc - rc_left rc;
          Height = rc_bottom rc - rc_top rc;
          SmallDiam = (if Height <s Width then Height else Width);
          retval = edge_retval uType uFlags;
          add = edge_add uType;
          SavePen = dc_pen hdc0;
          hdc = SelectPen hdc0 NULL_PEN;
          (InnerI, OuterI) = diag_edge_colors uType uFlags;
          SavePoint = dc_pos hdc;
          hdc = MoveToEx hdc 0 0;
          (spx, spy, epx, epy) = diag_endpoints rc uFlags SmallDiam;
          hdc = MoveToEx hdc spx spy;
          hdc = SelectPen hdc (pen_of OuterI);
          hdc = SetDCPenColor hdc (GetSysColor OuterI);
          hdc = LineTo hdc epx epy;
          hdc = SelectPen hdc (pen_of InnerI);
          hdc = SetDCPenColor hdc (GetSysColor InnerI);
          (hdc, Points) = diag_inner_edge hdc rc uFlags add (spx, spy, epx, epy);
          hdc = (if uFlags AND BF_MIDDLE \<noteq> 0 \<and> retval
                 then (let hbsave = dc_brush hdc;
                           hdc = SelectBrush hdc DC_BRUSH;
                           hpsave = dc_pen hdc;
                           hdc = SelectPen hdc DC_PEN;
                           fill = GetSysColor (if uFlags AND BF_MONO \<noteq> 0 then COLOR_WINDOW else COLOR_BTNFACE);
                           hdc = SetDCBrushColor hdc fill;
                           hdc = SetDCPenColor hdc fill;
                           hdc = Polygon hdc Points;
                           hdc = SelectBrush hdc hbsave;
                           hdc = SelectPen hdc hpsave
                       in hdc)
                 else hdc);
          rc = (if uFlags AND BF_ADJUST \<noteq> 0 then shrink_rect rc uFlags add else rc);
          hdc = SelectPen hdc SavePen;
          hdc = MoveToEx hdc (pt_x SavePoint) (pt_y SavePoint)
      in (retval, rc, hdc))"

text \<open>\<^verbatim>\<open>DrawEdge(hDC, rc, edge, flags)\<close>, the public entry point of both.\<close>

definition DrawEdge ::
  "(int \<Rightarrow> COLORREF) \<Rightarrow> DC \<Rightarrow> RECT \<Rightarrow> UINT \<Rightarrow> UINT \<Rightarrow> bool \<times> RECT \<times> DC" where
  "DrawEdge GetSysColor hDC rc edge flags =
     (if flags AND BF_DIAGONAL \<noteq> 0
      then IntDrawDiagEdge GetSysColor hDC rc edge flags
      else IntDrawRectEdge GetSysColor hDC rc edge flags)"

section \<open>Observing a call\<close>

text \<open>What a call painted: the operations it added to those of the device context.\<close>

definition drawn_by :: "DC \<Rightarrow> bool \<times> RECT \<times> DC \<Rightarrow> gdi_op list" where
  "drawn_by hdc res = drop (length (dc_drawn hdc)) (dc_drawn (snd (snd res)))"

text \<open>The number of sides that \<^verbatim>\<open>uFlags\<close> selects.\<close>

definition nsides :: "UINT \<Rightarrow> nat" where
  "nsides uFlags =
     (if uFlags AND BF_TOP \<noteq> 0 then 1 else 0) + (if uFlags AND BF_LEFT \<noteq> 0 then 1 else 0)
     + (if uFlags AND BF_BOTTOM \<noteq> 0 then 1 else 0) + (if uFlags AND BF_RIGHT \<noteq> 0 then 1 else 0)"

text \<open>The lines among them, painted or not (a line of the null pen paints nothing).\<close>

definition lines_drawn :: "DC \<Rightarrow> bool \<times> RECT \<times> DC \<Rightarrow> gdi_op list" where
  "lines_drawn hdc res = filter is_LineOp (drawn_by hdc res)"

text \<open>
  \<^verbatim>\<open>IntDrawRectEdge\<close> draws the outer lines of the selected sides and then their inner
  lines, both in the order top, left, bottom, right. So among the lines of a call with
  flags \<^verbatim>\<open>uFlags\<close>, the inner top line (when \<^verbatim>\<open>BF_TOP\<close> is set) and the inner left line
  (when \<^verbatim>\<open>BF_LEFT\<close> is set) are at these places.
\<close>

definition inner_top_line :: "UINT \<Rightarrow> gdi_op list \<Rightarrow> gdi_op" where
  "inner_top_line uFlags lines = lines ! nsides uFlags"

definition inner_left_line :: "UINT \<Rightarrow> gdi_op list \<Rightarrow> gdi_op" where
  "inner_left_line uFlags lines =
     lines ! (nsides uFlags + (if uFlags AND BF_TOP \<noteq> 0 then 1 else 0))"

text \<open>
  A device context, a rectangle and system colours to run the functions on: nothing
  painted yet, a pen and a brush of the caller's selected, the rectangle (0, 0, 10, 10),
  and each colour index standing for its own colour.
\<close>

definition example_dc :: DC where
  "example_dc =
     \<lparr>dc_pos = POINT 3 4, dc_pen = OtherPen 0, dc_brush = OtherBrush 0,
      dc_pen_color = 0, dc_brush_color = 0, dc_drawn = []\<rparr>"

definition example_rc :: RECT where
  "example_rc = \<lparr>rc_left = 0, rc_top = 0, rc_right = 10, rc_bottom = 10\<rparr>"

definition example_colors :: "int \<Rightarrow> COLORREF" where
  "example_colors nIndex = word_of_int nIndex"

section \<open>Properties\<close>

subsection \<open>Unfolding the constants\<close>

lemmas bdr_defs =
  BDR_RAISEDOUTER_def BDR_SUNKENOUTER_def BDR_RAISEDINNER_def BDR_SUNKENINNER_def
  BDR_OUTER_def BDR_INNER_def EDGE_RAISED_def EDGE_SUNKEN_def

lemmas bf_defs =
  BF_LEFT_def BF_TOP_def BF_RIGHT_def BF_BOTTOM_def BF_TOPLEFT_def BF_TOPRIGHT_def
  BF_BOTTOMLEFT_def BF_BOTTOMRIGHT_def BF_RECT_def BF_DIAGONAL_def
  BF_DIAGONAL_ENDTOPRIGHT_def BF_DIAGONAL_ENDTOPLEFT_def BF_DIAGONAL_ENDBOTTOMLEFT_def
  BF_DIAGONAL_ENDBOTTOMRIGHT_def BF_MIDDLE_def BF_SOFT_def BF_ADJUST_def BF_FLAT_def
  BF_MONO_def

lemmas color_defs =
  COLOR_WINDOW_def COLOR_WINDOWFRAME_def COLOR_BTNFACE_def COLOR_BTNSHADOW_def
  COLOR_BTNHIGHLIGHT_def COLOR_3DDKSHADOW_def COLOR_3DLIGHT_def

lemmas table_defs =
  LTInnerNormal_def LTOuterNormal_def RBInnerNormal_def RBOuterNormal_def
  LTInnerSoft_def LTOuterSoft_def RBInnerSoft_def RBOuterSoft_def
  LTRBOuterMono_def LTRBInnerMono_def LTRBOuterFlat_def LTRBInnerFlat_def

subsection \<open>Flags as bits\<close>

text \<open>
  Each test \<^verbatim>\<open>uFlags & BF_X\<close> of the source reads one bit of \<^verbatim>\<open>uFlags\<close>, and each
  test \<^verbatim>\<open>(uFlags & BF_XY) == BF_XY\<close> reads two.
\<close>

lemma flag_bit: "(f AND 2 ^ n \<noteq> 0) = bit f n" for f :: UINT
  by (simp add: and_exp_eq_0_iff_not_bit)


lemma BF_side_bits:
  "(uFlags AND BF_LEFT \<noteq> 0) = bit uFlags 0"
  "(uFlags AND BF_TOP \<noteq> 0) = bit uFlags 1"
  "(uFlags AND BF_RIGHT \<noteq> 0) = bit uFlags 2"
  "(uFlags AND BF_BOTTOM \<noteq> 0) = bit uFlags 3"
  using flag_bit [of uFlags 0] flag_bit [of uFlags 1] flag_bit [of uFlags 2] flag_bit [of uFlags 3]
  by (simp_all add: bf_defs)


lemma BF_modifier_bits:
  "(uFlags AND BF_DIAGONAL \<noteq> 0) = bit uFlags 4"
  "(uFlags AND BF_MIDDLE \<noteq> 0) = bit uFlags 11"
  "(uFlags AND BF_SOFT \<noteq> 0) = bit uFlags 12"
  "(uFlags AND BF_ADJUST \<noteq> 0) = bit uFlags 13"
  "(uFlags AND BF_FLAT \<noteq> 0) = bit uFlags 14"
  "(uFlags AND BF_MONO \<noteq> 0) = bit uFlags 15"
  using flag_bit [of uFlags 4] flag_bit [of uFlags 11] flag_bit [of uFlags 12]
    flag_bit [of uFlags 13] flag_bit [of uFlags 14] flag_bit [of uFlags 15]
  by (simp_all add: bf_defs)




lemma mask2_bits:
  "(f AND (2 ^ m OR 2 ^ n) = 2 ^ m OR 2 ^ n) = (bit f m \<and> bit f n)" if "m < 32" "n < 32" for f :: UINT
  using that by (auto simp add: bit_eq_iff [where ?'a = "32 word"] bit_and_iff bit_or_iff bit_exp_iff)

lemma BF_corner_bits:
  "(uFlags AND BF_TOPLEFT = BF_TOPLEFT) = (bit uFlags 0 \<and> bit uFlags 1)"
  "(uFlags AND BF_TOPRIGHT = BF_TOPRIGHT) = (bit uFlags 1 \<and> bit uFlags 2)"
  "(uFlags AND BF_BOTTOMLEFT = BF_BOTTOMLEFT) = (bit uFlags 0 \<and> bit uFlags 3)"
  "(uFlags AND BF_BOTTOMRIGHT = BF_BOTTOMRIGHT) = (bit uFlags 2 \<and> bit uFlags 3)"
  using mask2_bits [of 1 0 uFlags] mask2_bits [of 1 2 uFlags] mask2_bits [of 3 0 uFlags]
    mask2_bits [of 3 2 uFlags]
  by (auto simp add: bf_defs)

lemma BDR_bits:
  "(uType AND BDR_INNER = BDR_INNER) = (bit uType 2 \<and> bit uType 3)"
  "(uType AND BDR_OUTER = BDR_OUTER) = (bit uType 0 \<and> bit uType 1)"
  using mask2_bits [of 2 3 uType] mask2_bits [of 0 1 uType]
  by (auto simp add: bdr_defs)

lemma BF_flat_mono_bits:
  "(uFlags AND (BF_FLAT OR BF_MONO) \<noteq> 0) = (uFlags AND BF_FLAT \<noteq> 0 \<or> uFlags AND BF_MONO \<noteq> 0)"
  by (simp add: bit.conj_disj_distrib or_eq_0_iff)



lemma draw_outer_edge_drawn:
  "dc_drawn (draw_outer_edge GetSysColor hdc R uFlags LTOuterI RBOuterI) =
     dc_drawn hdc
     @ (if uFlags AND BF_TOP \<noteq> 0
        then [LineOp (pen_of LTOuterI) (GetSysColor LTOuterI)
                (POINT (rc_left R) (rc_top R)) (POINT (rc_right R) (rc_top R))] else [])
     @ (if uFlags AND BF_LEFT \<noteq> 0
        then [LineOp (pen_of LTOuterI) (GetSysColor LTOuterI)
                (POINT (rc_left R) (rc_top R)) (POINT (rc_left R) (rc_bottom R))] else [])
     @ (if uFlags AND BF_BOTTOM \<noteq> 0
        then [LineOp (pen_of RBOuterI) (GetSysColor RBOuterI)
                (POINT (rc_left R) (rc_bottom R - 1)) (POINT (rc_right R) (rc_bottom R - 1))] else [])
     @ (if uFlags AND BF_RIGHT \<noteq> 0
        then [LineOp (pen_of RBOuterI) (GetSysColor RBOuterI)
                (POINT (rc_right R - 1) (rc_top R)) (POINT (rc_right R - 1) (rc_bottom R))] else [])"
  by (simp add: draw_outer_edge_def Let_def LineTo_def MoveToEx_def SelectPen_def SetDCPenColor_def)


lemma draw_inner_edge_drawn:
  "dc_drawn (draw_inner_edge GetSysColor hdc R uFlags LTInnerI RBInnerI) =
     dc_drawn hdc
     @ (if uFlags AND BF_TOP \<noteq> 0
        then [LineOp (pen_of LTInnerI) (GetSysColor LTInnerI)
                (POINT (rc_left R + penplus uFlags BF_TOPLEFT) (rc_top R + 1))
                (POINT (rc_right R - penplus uFlags BF_TOPRIGHT) (rc_top R + 1))] else [])
     @ (if uFlags AND BF_LEFT \<noteq> 0
        then [LineOp (pen_of LTInnerI) (GetSysColor LTInnerI)
                (POINT (rc_left R + 1) (rc_top R + penplus uFlags BF_TOPLEFT))
                (POINT (rc_left R + 1) (rc_bottom R - penplus uFlags BF_BOTTOMLEFT))] else [])
     @ (if uFlags AND BF_BOTTOM \<noteq> 0
        then [LineOp (pen_of RBInnerI) (GetSysColor RBInnerI)
                (POINT (rc_left R + penplus uFlags BF_BOTTOMLEFT) (rc_bottom R - 2))
                (POINT (rc_right R - penplus uFlags BF_BOTTOMRIGHT) (rc_bottom R - 2))] else [])
     @ (if uFlags AND BF_RIGHT \<noteq> 0
        then [LineOp (pen_of RBInnerI) (GetSysColor RBInnerI)
                (POINT (rc_right R - 2) (rc_top R + penplus uFlags BF_TOPRIGHT))
                (POINT (rc_right R - 2) (rc_bottom R - penplus uFlags BF_BOTTOMRIGHT))] else [])"
  by (simp add: draw_inner_edge_def Let_def LineTo_def MoveToEx_def SelectPen_def SetDCPenColor_def)



lemma IntDrawRectEdge_drawn:
  "dc_drawn (snd (snd (IntDrawRectEdge GetSysColor hdc rc uType uFlags))) =
     dc_drawn
       (draw_inner_edge GetSysColor
          (draw_outer_edge GetSysColor
             (if uFlags AND BF_MIDDLE \<noteq> 0 \<and> edge_retval uType uFlags
              then FillRect hdc rc
                     (SysColorBrush (if uFlags AND BF_MONO \<noteq> 0 then COLOR_WINDOW else COLOR_BTNFACE))
              else hdc)
             rc uFlags (fst (snd (rect_edge_colors uType uFlags)))
             (snd (snd (snd (rect_edge_colors uType uFlags)))))
          rc uFlags (fst (rect_edge_colors uType uFlags))
          (fst (snd (snd (rect_edge_colors uType uFlags)))))"
  by (simp add: IntDrawRectEdge_def Let_def split_beta SelectPen_def MoveToEx_def
      draw_inner_edge_drawn draw_outer_edge_drawn FillRect_def)


lemma IntDrawRectEdge_rect:
  "fst (snd (IntDrawRectEdge GetSysColor hdc rc uType uFlags)) =
     (if uFlags AND BF_ADJUST \<noteq> 0 then shrink_rect rc uFlags (edge_add uType) else rc)"
  by (simp add: IntDrawRectEdge_def Let_def split_beta)


lemma IntDrawDiagEdge_rect:
  "fst (snd (IntDrawDiagEdge GetSysColor hdc rc uType uFlags)) =
     (if uFlags AND BF_ADJUST \<noteq> 0 then shrink_rect rc uFlags (edge_add uType) else rc)"
  by (simp add: IntDrawDiagEdge_def Let_def split_beta)

subsection \<open>Results of the two functions\<close>

lemma IntDrawRectEdge_retval:
  "fst (IntDrawRectEdge GetSysColor hdc rc uType uFlags) = edge_retval uType uFlags"
  by (simp add: IntDrawRectEdge_def Let_def split_beta)

lemma IntDrawDiagEdge_retval:
  "fst (IntDrawDiagEdge GetSysColor hdc rc uType uFlags) = edge_retval uType uFlags"
  by (simp add: IntDrawDiagEdge_def Let_def split_beta)

text \<open>
  C4. For every style code and every set of flags, on any rectangle and device context,
  \<^verbatim>\<open>IntDrawDiagEdge\<close> and \<^verbatim>\<open>IntDrawRectEdge\<close> return the same truth value: one returns
  false exactly when the other does.
\<close>

theorem C4_diag_and_rect_return_the_same:
  "fst (IntDrawDiagEdge GetSysColor hdc rc uType uFlags)
     = fst (IntDrawRectEdge GetSysColor hdc' rc' uType uFlags)"
  by (simp add: IntDrawRectEdge_retval IntDrawDiagEdge_retval)

subsection \<open>The value returned\<close>

text \<open>
  C1, as the specification states it: a style code with a single bevel and flags with
  neither \<^verbatim>\<open>BF_FLAT\<close> nor \<^verbatim>\<open>BF_MONO\<close> make \<^verbatim>\<open>IntDrawRectEdge\<close> return false. The
  code does not: \<^verbatim>\<open>BDR_RAISEDOUTER\<close> has an outer bevel and no inner bevel, \<^verbatim>\<open>BF_RECT\<close>
  has neither flag, and the call returns true.
\<close>

theorem C1_single_bevel_counterexample:
  "BDR_RAISEDOUTER AND BDR_OUTER \<noteq> 0 \<and> BDR_RAISEDOUTER AND BDR_INNER = 0
   \<and> BF_RECT AND (BF_FLAT OR BF_MONO) = 0
   \<and> fst (IntDrawRectEdge example_colors example_dc example_rc BDR_RAISEDOUTER BF_RECT)"
  by (simp add: IntDrawRectEdge_retval edge_retval_def bdr_defs bf_defs)

text \<open>
  C1, amended. With neither \<^verbatim>\<open>BF_FLAT\<close> nor \<^verbatim>\<open>BF_MONO\<close> in the flags,
  \<^verbatim>\<open>IntDrawRectEdge\<close> returns false exactly when the style code has both bits of its
  inner field or both bits of its outer field (raised and sunken at once). A single bevel
  of one bit therefore returns true.
\<close>

theorem C1_returns_false_iff:
  assumes "uFlags AND BF_FLAT = 0" and "uFlags AND BF_MONO = 0"
  shows "(\<not> fst (IntDrawRectEdge GetSysColor hdc rc uType uFlags))
           = (uType AND BDR_INNER = BDR_INNER \<or> uType AND BDR_OUTER = BDR_OUTER)"
  using assms by (simp add: IntDrawRectEdge_retval edge_retval_def BF_flat_mono_bits)

theorem C1_returns_false_iff_witness:
  "BF_RECT AND BF_FLAT = 0 \<and> BF_RECT AND BF_MONO = 0
   \<and> \<not> fst (IntDrawRectEdge example_colors example_dc example_rc BDR_OUTER BF_RECT)
   \<and> fst (IntDrawRectEdge example_colors example_dc example_rc BDR_SUNKENINNER BF_RECT)"
  using C1_returns_false_iff [of BF_RECT example_colors example_dc example_rc BDR_OUTER]
    C1_returns_false_iff [of BF_RECT example_colors example_dc example_rc BDR_SUNKENINNER]
  by (simp add: bdr_defs bf_defs)








subsection \<open>The caller's rectangle\<close>

lemma shrink_rect_sides:
  "rc_left (shrink_rect r uFlags add) = (if uFlags AND BF_LEFT \<noteq> 0 then rc_left r + add else rc_left r)"
  "rc_right (shrink_rect r uFlags add) = (if uFlags AND BF_RIGHT \<noteq> 0 then rc_right r - add else rc_right r)"
  "rc_top (shrink_rect r uFlags add) = (if uFlags AND BF_TOP \<noteq> 0 then rc_top r + add else rc_top r)"
  "rc_bottom (shrink_rect r uFlags add) = (if uFlags AND BF_BOTTOM \<noteq> 0 then rc_bottom r - add else rc_bottom r)"
  by (simp_all add: shrink_rect_def Let_def)

text \<open>
  C6. With \<^verbatim>\<open>BF_ADJUST\<close> in the flags, a call of \<^verbatim>\<open>IntDrawRectEdge\<close> moves each
  selected side of the rectangle inwards by \<open>edge_add uType\<close> and leaves the other sides,
  and a second call with the same style code and flags, on the rectangle and the device
  context that the first call returned, moves each side by the same amount again. The
  amount is a function of the style code alone.
\<close>

theorem C6_adjust_shrinks_by_the_same_amount_again:
  assumes "uFlags AND BF_ADJUST \<noteq> 0"
    and "IntDrawRectEdge GetSysColor hdc rc uType uFlags = (ret1, rc1, hdc1)"
    and "IntDrawRectEdge GetSysColor hdc1 rc1 uType uFlags = (ret2, rc2, hdc2)"
  shows "rc_left rc1 - rc_left rc = (if uFlags AND BF_LEFT \<noteq> 0 then edge_add uType else 0)
         \<and> rc_left rc2 - rc_left rc1 = (if uFlags AND BF_LEFT \<noteq> 0 then edge_add uType else 0)
         \<and> rc_top rc1 - rc_top rc = (if uFlags AND BF_TOP \<noteq> 0 then edge_add uType else 0)
         \<and> rc_top rc2 - rc_top rc1 = (if uFlags AND BF_TOP \<noteq> 0 then edge_add uType else 0)
         \<and> rc_right rc - rc_right rc1 = (if uFlags AND BF_RIGHT \<noteq> 0 then edge_add uType else 0)
         \<and> rc_right rc1 - rc_right rc2 = (if uFlags AND BF_RIGHT \<noteq> 0 then edge_add uType else 0)
         \<and> rc_bottom rc - rc_bottom rc1 = (if uFlags AND BF_BOTTOM \<noteq> 0 then edge_add uType else 0)
         \<and> rc_bottom rc1 - rc_bottom rc2 = (if uFlags AND BF_BOTTOM \<noteq> 0 then edge_add uType else 0)"
proof -
  have r1: "rc1 = shrink_rect rc uFlags (edge_add uType)"
    using assms(1) IntDrawRectEdge_rect [of GetSysColor hdc rc uType uFlags] assms(2) by simp
  have r2: "rc2 = shrink_rect rc1 uFlags (edge_add uType)"
    using assms(1) IntDrawRectEdge_rect [of GetSysColor hdc1 rc1 uType uFlags] assms(3) by simp
  show ?thesis
    unfolding r2 unfolding r1 by (simp add: shrink_rect_sides)
qed

theorem C6_adjust_shrinks_by_the_same_amount_again_witness:
  "(BF_RECT OR BF_ADJUST) AND BF_ADJUST \<noteq> 0
   \<and> rc_left (fst (snd (IntDrawRectEdge example_colors example_dc example_rc EDGE_RAISED
          (BF_RECT OR BF_ADJUST)))) - rc_left example_rc = 2
   \<and> rc_left (fst (snd (IntDrawRectEdge example_colors
          (snd (snd (IntDrawRectEdge example_colors example_dc example_rc EDGE_RAISED
             (BF_RECT OR BF_ADJUST))))
          (fst (snd (IntDrawRectEdge example_colors example_dc example_rc EDGE_RAISED
             (BF_RECT OR BF_ADJUST))))
          EDGE_RAISED (BF_RECT OR BF_ADJUST))))
       - rc_left (fst (snd (IntDrawRectEdge example_colors example_dc example_rc EDGE_RAISED
          (BF_RECT OR BF_ADJUST)))) = 2"
proof -
  let ?f = "BF_RECT OR BF_ADJUST"
  let ?r1 = "IntDrawRectEdge example_colors example_dc example_rc EDGE_RAISED ?f"
  let ?r2 = "IntDrawRectEdge example_colors (snd (snd ?r1)) (fst (snd ?r1)) EDGE_RAISED ?f"
  have a: "?f AND BF_ADJUST \<noteq> 0"
    by (simp add: bf_defs)
  have add: "edge_add EDGE_RAISED = 2"
    by (simp add: edge_add_def edge_index_def table_defs bdr_defs color_defs)
  have left: "?f AND BF_LEFT \<noteq> 0"
    by (simp add: bf_defs)
  have e1: "?r1 = (fst ?r1, fst (snd ?r1), snd (snd ?r1))"
    by simp
  have e2: "?r2 = (fst ?r2, fst (snd ?r2), snd (snd ?r2))"
    by simp
  show ?thesis
    using C6_adjust_shrinks_by_the_same_amount_again [OF a e1 e2] a add left by simp
qed

text \<open>
  C9. Without \<^verbatim>\<open>BF_ADJUST\<close> in the flags, the caller's rectangle is the same on return
  from \<^verbatim>\<open>IntDrawRectEdge\<close>, from \<^verbatim>\<open>IntDrawDiagEdge\<close> and from \<^verbatim>\<open>DrawEdge\<close>: a
  call that changes the rectangle has \<^verbatim>\<open>BF_ADJUST\<close> set.
\<close>

theorem C9_rectangle_unchanged_without_adjust:
  assumes "uFlags AND BF_ADJUST = 0"
  shows "fst (snd (IntDrawRectEdge GetSysColor hdc rc uType uFlags)) = rc
         \<and> fst (snd (IntDrawDiagEdge GetSysColor hdc rc uType uFlags)) = rc
         \<and> fst (snd (DrawEdge GetSysColor hdc rc uType uFlags)) = rc"
  using assms by (simp add: IntDrawRectEdge_rect IntDrawDiagEdge_rect DrawEdge_def)

theorem C9_rectangle_unchanged_without_adjust_witness:
  "(BF_RECT OR BF_MIDDLE) AND BF_ADJUST = 0
   \<and> (BF_DIAGONAL_ENDTOPLEFT OR BF_MIDDLE) AND BF_ADJUST = 0
   \<and> fst (snd (IntDrawRectEdge example_colors example_dc example_rc EDGE_RAISED (BF_RECT OR BF_MIDDLE)))
       = example_rc
   \<and> fst (snd (IntDrawDiagEdge example_colors example_dc example_rc EDGE_RAISED
                  (BF_DIAGONAL_ENDTOPLEFT OR BF_MIDDLE)))
       = example_rc"
  using C9_rectangle_unchanged_without_adjust
          [of "BF_RECT OR BF_MIDDLE" example_colors example_dc example_rc EDGE_RAISED]
    C9_rectangle_unchanged_without_adjust
          [of "BF_DIAGONAL_ENDTOPLEFT OR BF_MIDDLE" example_colors example_dc example_rc EDGE_RAISED]
  by (simp add: bf_defs)

subsection \<open>Colour resolution\<close>

lemma edge_index_less: "edge_index uType < 16"
proof -
  have "uType AND 15 \<le> 15"
    by (rule word_and_le1)
  then have "unat (uType AND 15) \<le> unat (15 :: UINT)"
    by (simp only: word_le_nat_alt)
  then show ?thesis
    by (simp add: edge_index_def bdr_defs)
qed

lemma table_lengths:
  "length LTInnerNormal = 16" "length LTOuterNormal = 16"
  "length RBInnerNormal = 16" "length RBOuterNormal = 16"
  "length LTInnerSoft = 16" "length LTOuterSoft = 16"
  "length RBInnerSoft = 16" "length RBOuterSoft = 16"
  "length LTRBOuterMono = 16" "length LTRBInnerMono = 16"
  "length LTRBOuterFlat = 16" "length LTRBInnerFlat = 16"
  by (simp_all add: table_defs)

lemma low_four_bits:
  assumes "uType AND 0xF = uType' AND 0xF"
  shows "edge_index uType = edge_index uType'"
    and "edge_retval uType uFlags = edge_retval uType' uFlags"
proof -
  show "edge_index uType = edge_index uType'"
    using assms by (simp add: edge_index_def bdr_defs)
  have "bit (uType AND 0xF) k = bit (uType' AND 0xF) k" for k
    using assms by simp
  from this [of 0] this [of 1] this [of 2] this [of 3]
  have "bit uType 0 = bit uType' 0" "bit uType 1 = bit uType' 1"
    "bit uType 2 = bit uType' 2" "bit uType 3 = bit uType' 3"
    by (simp_all add: bit_and_iff)
  then show "edge_retval uType uFlags = edge_retval uType' uFlags"
    by (simp add: edge_retval_def BDR_bits)
qed

text \<open>
  C3, as the specification states it: two style codes that agree on bits 0 and 1 resolve
  the same four colours. The code does not: \<^verbatim>\<open>BDR_RAISEDOUTER\<close> and \<^verbatim>\<open>EDGE_RAISED\<close>
  agree on bits 0 and 1, and with the same flags the first has no inner colour (its inner
  top line is drawn with the null pen) where the second has \<^verbatim>\<open>COLOR_BTNHIGHLIGHT\<close> and
  \<^verbatim>\<open>COLOR_BTNSHADOW\<close>.
\<close>

theorem C3_low_two_bits_counterexample:
  "BDR_RAISEDOUTER AND 3 = EDGE_RAISED AND 3
   \<and> rect_edge_colors BDR_RAISEDOUTER BF_RECT = (-1, COLOR_3DLIGHT, -1, COLOR_3DDKSHADOW)
   \<and> rect_edge_colors EDGE_RAISED BF_RECT
       = (COLOR_BTNHIGHLIGHT, COLOR_3DLIGHT, COLOR_BTNSHADOW, COLOR_3DDKSHADOW)
   \<and> drawn_by example_dc
         (IntDrawRectEdge example_colors example_dc example_rc BDR_RAISEDOUTER BF_RECT) ! 4
       = LineOp NULL_PEN (- 1) (POINT 1 1) (POINT 9 1)
   \<and> drawn_by example_dc
         (IntDrawRectEdge example_colors example_dc example_rc EDGE_RAISED BF_RECT) ! 4
       = LineOp DC_PEN 20 (POINT 1 1) (POINT 9 1)"
  by (simp add: rect_edge_colors_def edge_index_def table_defs bdr_defs bf_defs color_defs
      drawn_by_def IntDrawRectEdge_drawn draw_inner_edge_drawn draw_outer_edge_drawn
      edge_retval_def penplus_def pen_of_def example_dc_def example_rc_def example_colors_def)

text \<open>
  C3, amended. Two style codes that agree on bits 0 to 3 resolve the same four colours
  under the same flags, and the whole call of \<^verbatim>\<open>IntDrawRectEdge\<close> is the same for both.
  Resolution never fails: the index \<^verbatim>\<open>uType & (BDR_INNER|BDR_OUTER)\<close> is below 16, the
  length of every table.
\<close>

theorem C3_colors_are_a_function_of_the_low_four_bits:
  assumes "uType AND 0xF = uType' AND 0xF"
  shows "rect_edge_colors uType uFlags = rect_edge_colors uType' uFlags
         \<and> IntDrawRectEdge GetSysColor hdc rc uType uFlags
             = IntDrawRectEdge GetSysColor hdc rc uType' uFlags
         \<and> edge_index uType < 16
         \<and> length LTInnerNormal = 16 \<and> length LTOuterNormal = 16
         \<and> length RBInnerNormal = 16 \<and> length RBOuterNormal = 16
         \<and> length LTInnerSoft = 16 \<and> length LTOuterSoft = 16
         \<and> length RBInnerSoft = 16 \<and> length RBOuterSoft = 16
         \<and> length LTRBInnerMono = 16 \<and> length LTRBOuterMono = 16
         \<and> length LTRBInnerFlat = 16 \<and> length LTRBOuterFlat = 16"
proof -
  note eq = low_four_bits [OF assms]
  have colors: "rect_edge_colors uType uFlags = rect_edge_colors uType' uFlags"
    by (simp only: rect_edge_colors_def eq(1))
  have add: "edge_add uType = edge_add uType'"
    by (simp only: edge_add_def eq(1))
  have "IntDrawRectEdge GetSysColor hdc rc uType uFlags
          = IntDrawRectEdge GetSysColor hdc rc uType' uFlags"
    by (simp only: IntDrawRectEdge_def colors add eq(2))
  with colors show ?thesis
    by (simp add: edge_index_less table_lengths)
qed

theorem C3_colors_are_a_function_of_the_low_four_bits_witness:
  "(0x35 :: UINT) AND 0xF = EDGE_RAISED AND 0xF
   \<and> rect_edge_colors 0x35 BF_RECT
       = (COLOR_BTNHIGHLIGHT, COLOR_3DLIGHT, COLOR_BTNSHADOW, COLOR_3DDKSHADOW)
   \<and> edge_index 0x35 = 5"
  using C3_colors_are_a_function_of_the_low_four_bits [of "0x35" EDGE_RAISED BF_RECT]
  by (simp add: rect_edge_colors_def edge_index_def table_defs bdr_defs bf_defs)




subsection \<open>What \<^verbatim>\<open>IntDrawRectEdge\<close> paints\<close>

lemma IntDrawRectEdge_drawn_by:
  "drawn_by hdc (IntDrawRectEdge GetSysColor hdc rc uType uFlags) =
     (if uFlags AND BF_MIDDLE \<noteq> 0 \<and> edge_retval uType uFlags
      then [FillRectOp rc (SysColorBrush (if uFlags AND BF_MONO \<noteq> 0 then COLOR_WINDOW else COLOR_BTNFACE))]
      else [])
     @ drawn_by hdc (True, rc,
         draw_outer_edge GetSysColor hdc rc uFlags (fst (snd (rect_edge_colors uType uFlags)))
           (snd (snd (snd (rect_edge_colors uType uFlags)))))
     @ drawn_by hdc (True, rc,
         draw_inner_edge GetSysColor hdc rc uFlags (fst (rect_edge_colors uType uFlags))
           (fst (snd (snd (rect_edge_colors uType uFlags)))))"
  by (simp add: drawn_by_def IntDrawRectEdge_drawn draw_inner_edge_drawn draw_outer_edge_drawn
      FillRect_def)

lemma outer_edge_lines:
  "list_all is_LineOp (drawn_by hdc (b, r, draw_outer_edge GetSysColor hdc rc uFlags LTOuterI RBOuterI))"
  "length (drawn_by hdc (b, r, draw_outer_edge GetSysColor hdc rc uFlags LTOuterI RBOuterI)) = nsides uFlags"
  by (simp_all add: drawn_by_def draw_outer_edge_drawn nsides_def)

lemma inner_edge_lines:
  "list_all is_LineOp (drawn_by hdc (b, r, draw_inner_edge GetSysColor hdc rc uFlags LTInnerI RBInnerI))"
  "length (drawn_by hdc (b, r, draw_inner_edge GetSysColor hdc rc uFlags LTInnerI RBInnerI)) = nsides uFlags"
  by (simp_all add: drawn_by_def draw_inner_edge_drawn nsides_def)

text \<open>
  C5, as the specification states it: every call with \<^verbatim>\<open>BF_MIDDLE\<close> set fills the
  rectangle before it draws its lines. The code does not: with the style code
  \<^verbatim>\<open>BDR_INNER | BDR_RAISEDOUTER\<close> and the flags \<^verbatim>\<open>BF_RECT | BF_MIDDLE\<close> the call returns
  false, paints the four outer lines and fills nothing.
\<close>

theorem C5_middle_without_fill_counterexample:
  "(BF_RECT OR BF_MIDDLE) AND BF_MIDDLE \<noteq> 0
   \<and> drawn_by example_dc
        (IntDrawRectEdge example_colors example_dc example_rc (BDR_INNER OR BDR_RAISEDOUTER)
           (BF_RECT OR BF_MIDDLE))
       = [LineOp DC_PEN 22 (POINT 0 0) (POINT 10 0),
          LineOp DC_PEN 22 (POINT 0 0) (POINT 0 10),
          LineOp DC_PEN 21 (POINT 0 9) (POINT 10 9),
          LineOp DC_PEN 21 (POINT 9 0) (POINT 9 10),
          LineOp NULL_PEN (- 1) (POINT 1 1) (POINT 9 1),
          LineOp NULL_PEN (- 1) (POINT 1 1) (POINT 1 9),
          LineOp NULL_PEN (- 1) (POINT 1 8) (POINT 9 8),
          LineOp NULL_PEN (- 1) (POINT 8 1) (POINT 8 9)]"
  by (simp add: rect_edge_colors_def edge_index_def table_defs bdr_defs bf_defs color_defs
      drawn_by_def IntDrawRectEdge_drawn draw_inner_edge_drawn draw_outer_edge_drawn
      edge_retval_def penplus_def pen_of_def example_dc_def example_rc_def example_colors_def)

text \<open>
  C5, amended. In every call of \<^verbatim>\<open>IntDrawRectEdge\<close> with \<^verbatim>\<open>BF_MIDDLE\<close> set that
  returns true, the first operation is the fill of the caller's rectangle as it was on
  entry, with the brush of \<^verbatim>\<open>COLOR_BTNFACE\<close>, or of \<^verbatim>\<open>COLOR_WINDOW\<close> when \<^verbatim>\<open>BF_MONO\<close>
  is set; every operation after it is a line, two for each selected side.
\<close>

theorem C5_middle_fills_first_when_the_call_returns_true:
  assumes "uFlags AND BF_MIDDLE \<noteq> 0"
    and "fst (IntDrawRectEdge GetSysColor hdc rc uType uFlags)"
  shows "drawn_by hdc (IntDrawRectEdge GetSysColor hdc rc uType uFlags)
           = FillRectOp rc
               (SysColorBrush (if uFlags AND BF_MONO \<noteq> 0 then COLOR_WINDOW else COLOR_BTNFACE))
             # tl (drawn_by hdc (IntDrawRectEdge GetSysColor hdc rc uType uFlags))
         \<and> list_all is_LineOp (tl (drawn_by hdc (IntDrawRectEdge GetSysColor hdc rc uType uFlags)))
         \<and> length (tl (drawn_by hdc (IntDrawRectEdge GetSysColor hdc rc uType uFlags)))
             = 2 * nsides uFlags"
proof -
  have "edge_retval uType uFlags"
    using assms(2) by (simp add: IntDrawRectEdge_retval)
  with assms(1) show ?thesis
    by (simp add: IntDrawRectEdge_drawn_by outer_edge_lines inner_edge_lines)
qed

theorem C5_middle_fills_first_when_the_call_returns_true_witness:
  "(BF_RECT OR BF_MIDDLE) AND BF_MIDDLE \<noteq> 0
   \<and> fst (IntDrawRectEdge example_colors example_dc example_rc EDGE_SUNKEN (BF_RECT OR BF_MIDDLE))
   \<and> hd (drawn_by example_dc
        (IntDrawRectEdge example_colors example_dc example_rc EDGE_SUNKEN (BF_RECT OR BF_MIDDLE)))
       = FillRectOp \<lparr>rc_left = 0, rc_top = 0, rc_right = 10, rc_bottom = 10\<rparr> (SysColorBrush 15)
   \<and> length (tl (drawn_by example_dc
        (IntDrawRectEdge example_colors example_dc example_rc EDGE_SUNKEN (BF_RECT OR BF_MIDDLE))))
       = 8"
proof -
  have m: "(BF_RECT OR BF_MIDDLE) AND BF_MIDDLE \<noteq> 0"
    by (simp add: bf_defs)
  have r: "fst (IntDrawRectEdge example_colors example_dc example_rc EDGE_SUNKEN (BF_RECT OR BF_MIDDLE))"
    by (simp add: IntDrawRectEdge_retval edge_retval_def bdr_defs)
  have n: "nsides (BF_RECT OR BF_MIDDLE) = 4" "(BF_RECT OR BF_MIDDLE) AND BF_MONO = 0"
    by (simp_all add: nsides_def bf_defs)
  from C5_middle_fills_first_when_the_call_returns_true [OF m r]
  have "drawn_by example_dc
          (IntDrawRectEdge example_colors example_dc example_rc EDGE_SUNKEN (BF_RECT OR BF_MIDDLE))
        = FillRectOp example_rc (SysColorBrush COLOR_BTNFACE)
          # tl (drawn_by example_dc
          (IntDrawRectEdge example_colors example_dc example_rc EDGE_SUNKEN (BF_RECT OR BF_MIDDLE)))"
    and "length (tl (drawn_by example_dc
        (IntDrawRectEdge example_colors example_dc example_rc EDGE_SUNKEN (BF_RECT OR BF_MIDDLE))))
       = 8"
    by (simp_all add: n)
  then show ?thesis
    using m r by (simp add: example_rc_def color_defs) (metis list.sel(1))
qed

subsection \<open>Corners\<close>

lemma clear_left_bit: "bit (uFlags AND NOT BF_LEFT) k = (bit uFlags k \<and> k \<noteq> 0)"
  by (auto simp add: bit_and_iff bit_not_iff BF_LEFT_def bit_1_iff dest: bit_imp_possible_bit)

lemma clear_top_bit: "bit (uFlags AND NOT BF_TOP) k = (bit uFlags k \<and> k \<noteq> 1)"
proof -
  have "bit (uFlags AND NOT 2) k = (bit uFlags k \<and> \<not> bit (2 :: UINT) k)"
    by (simp only: bit_and_iff bit_not_iff) (auto dest: bit_imp_possible_bit)
  then show ?thesis
    by (auto simp only: BF_TOP_def bit_2_iff dest: bit_imp_possible_bit)
qed

lemma rect_edge_colors_bits:
  "rect_edge_colors uType uFlags =
     (if bit uFlags 15 then
        (LTRBInnerMono ! edge_index uType, LTRBOuterMono ! edge_index uType,
         LTRBInnerMono ! edge_index uType, LTRBOuterMono ! edge_index uType)
      else if bit uFlags 14 then
        (if LTRBInnerFlat ! edge_index uType \<noteq> -1
         then (COLOR_BTNFACE, LTRBOuterFlat ! edge_index uType,
               COLOR_BTNFACE, LTRBOuterFlat ! edge_index uType)
         else (LTRBInnerFlat ! edge_index uType, LTRBOuterFlat ! edge_index uType,
               LTRBInnerFlat ! edge_index uType, LTRBOuterFlat ! edge_index uType))
      else if bit uFlags 12 then
        (LTInnerSoft ! edge_index uType, LTOuterSoft ! edge_index uType,
         RBInnerSoft ! edge_index uType, RBOuterSoft ! edge_index uType)
      else
        (LTInnerNormal ! edge_index uType, LTOuterNormal ! edge_index uType,
         RBInnerNormal ! edge_index uType, RBOuterNormal ! edge_index uType))"
  by (simp add: rect_edge_colors_def BF_modifier_bits Let_def)

lemma rect_edge_colors_clear_side:
  "rect_edge_colors uType (uFlags AND NOT BF_LEFT) = rect_edge_colors uType uFlags"
  "rect_edge_colors uType (uFlags AND NOT BF_TOP) = rect_edge_colors uType uFlags"
  by (simp_all add: rect_edge_colors_bits clear_left_bit clear_top_bit)

lemma IntDrawRectEdge_lines:
  "lines_drawn hdc (IntDrawRectEdge GetSysColor hdc rc uType uFlags) =
     drawn_by hdc (True, rc,
         draw_outer_edge GetSysColor hdc rc uFlags (fst (snd (rect_edge_colors uType uFlags)))
           (snd (snd (snd (rect_edge_colors uType uFlags)))))
     @ drawn_by hdc (True, rc,
         draw_inner_edge GetSysColor hdc rc uFlags (fst (rect_edge_colors uType uFlags))
           (fst (snd (snd (rect_edge_colors uType uFlags)))))"
proof -
  have "filter is_LineOp xs = xs" if "list_all is_LineOp xs" for xs :: "gdi_op list"
    using that by (simp add: list_all_iff)
  then show ?thesis
    by (simp add: lines_drawn_def IntDrawRectEdge_drawn_by outer_edge_lines inner_edge_lines)
qed

lemma inner_lines_nth:
  "(drawn_by hdc (True, rc, draw_outer_edge GetSysColor hdc rc uFlags LTOuterI RBOuterI)
     @ drawn_by hdc (True, rc, draw_inner_edge GetSysColor hdc rc uFlags LTInnerI RBInnerI))
     ! (nsides uFlags + k)
   = drawn_by hdc (True, rc, draw_inner_edge GetSysColor hdc rc uFlags LTInnerI RBInnerI) ! k"
  by (simp add: nth_append outer_edge_lines)

lemma inner_top_line_eq:
  assumes "bit uFlags 1"
  shows "inner_top_line uFlags (lines_drawn hdc (IntDrawRectEdge GetSysColor hdc rc uType uFlags))
    = LineOp (pen_of (fst (rect_edge_colors uType uFlags)))
        (GetSysColor (fst (rect_edge_colors uType uFlags)))
        (POINT (rc_left rc + penplus uFlags BF_TOPLEFT) (rc_top rc + 1))
        (POINT (rc_right rc - penplus uFlags BF_TOPRIGHT) (rc_top rc + 1))"
proof -
  let ?inner = "drawn_by hdc (True, rc,
         draw_inner_edge GetSysColor hdc rc uFlags (fst (rect_edge_colors uType uFlags))
           (fst (snd (snd (rect_edge_colors uType uFlags)))))"
  have "inner_top_line uFlags (lines_drawn hdc (IntDrawRectEdge GetSysColor hdc rc uType uFlags))
          = ?inner ! 0"
    using inner_lines_nth [where k = 0]
    by (simp only: inner_top_line_def IntDrawRectEdge_lines add_0_right)
  also have "\<dots> = LineOp (pen_of (fst (rect_edge_colors uType uFlags)))
        (GetSysColor (fst (rect_edge_colors uType uFlags)))
        (POINT (rc_left rc + penplus uFlags BF_TOPLEFT) (rc_top rc + 1))
        (POINT (rc_right rc - penplus uFlags BF_TOPRIGHT) (rc_top rc + 1))"
    using assms by (simp add: drawn_by_def draw_inner_edge_drawn BF_side_bits)
  finally show ?thesis .
qed

lemma inner_left_line_eq:
  assumes "bit uFlags 0"
  shows "inner_left_line uFlags (lines_drawn hdc (IntDrawRectEdge GetSysColor hdc rc uType uFlags))
    = LineOp (pen_of (fst (rect_edge_colors uType uFlags)))
        (GetSysColor (fst (rect_edge_colors uType uFlags)))
        (POINT (rc_left rc + 1) (rc_top rc + penplus uFlags BF_TOPLEFT))
        (POINT (rc_left rc + 1) (rc_bottom rc - penplus uFlags BF_BOTTOMLEFT))"
proof -
  let ?inner = "drawn_by hdc (True, rc,
         draw_inner_edge GetSysColor hdc rc uFlags (fst (rect_edge_colors uType uFlags))
           (fst (snd (snd (rect_edge_colors uType uFlags)))))"
  have "inner_left_line uFlags (lines_drawn hdc (IntDrawRectEdge GetSysColor hdc rc uType uFlags))
          = ?inner ! (if uFlags AND BF_TOP \<noteq> 0 then 1 else 0)"
    by (simp only: inner_left_line_def IntDrawRectEdge_lines inner_lines_nth)
  also have "\<dots> = LineOp (pen_of (fst (rect_edge_colors uType uFlags)))
        (GetSysColor (fst (rect_edge_colors uType uFlags)))
        (POINT (rc_left rc + 1) (rc_top rc + penplus uFlags BF_TOPLEFT))
        (POINT (rc_left rc + 1) (rc_bottom rc - penplus uFlags BF_BOTTOMLEFT))"
    using assms by (simp add: drawn_by_def draw_inner_edge_drawn BF_side_bits)
  finally show ?thesis .
qed

lemma penplus_bits:
  "penplus uFlags BF_TOPLEFT = (if bit uFlags 0 \<and> bit uFlags 1 then 1 else 0)"
  "penplus uFlags BF_TOPRIGHT = (if bit uFlags 1 \<and> bit uFlags 2 then 1 else 0)"
  "penplus uFlags BF_BOTTOMLEFT = (if bit uFlags 0 \<and> bit uFlags 3 then 1 else 0)"
  "penplus uFlags BF_BOTTOMRIGHT = (if bit uFlags 2 \<and> bit uFlags 3 then 1 else 0)"
  by (simp_all add: penplus_def BF_corner_bits)

text \<open>
  C7. \<^verbatim>\<open>BF_TOPLEFT\<close> is \<^verbatim>\<open>BF_TOP | BF_LEFT\<close>: a call with the top and the left side
  selected has the top-left corner. In such a call the inner top line starts at
  \<open>(left + 1, top + 1)\<close>, one pixel to the right of \<open>(left, top + 1)\<close>, where it starts
  in the same call without the left side, and the inner left line starts at
  \<open>(left + 1, top + 1)\<close>, one pixel below \<open>(left + 1, top)\<close>, where it starts in the same
  call without the top side. The pens, the colours and the other ends of the lines are
  the same.
\<close>

theorem C7_corner_moves_inner_line_ends_by_one:
  assumes "uFlags AND BF_TOP \<noteq> 0" and "uFlags AND BF_LEFT \<noteq> 0"
  shows "uFlags AND BF_TOPLEFT = BF_TOPLEFT
    \<and> inner_top_line uFlags
        (lines_drawn hdc (IntDrawRectEdge GetSysColor hdc rc uType uFlags))
      = LineOp (pen_of (fst (rect_edge_colors uType uFlags)))
          (GetSysColor (fst (rect_edge_colors uType uFlags)))
          (POINT (rc_left rc + 1) (rc_top rc + 1))
          (POINT (rc_right rc - penplus uFlags BF_TOPRIGHT) (rc_top rc + 1))
    \<and> inner_top_line (uFlags AND NOT BF_LEFT)
        (lines_drawn hdc (IntDrawRectEdge GetSysColor hdc rc uType (uFlags AND NOT BF_LEFT)))
      = LineOp (pen_of (fst (rect_edge_colors uType uFlags)))
          (GetSysColor (fst (rect_edge_colors uType uFlags)))
          (POINT (rc_left rc) (rc_top rc + 1))
          (POINT (rc_right rc - penplus uFlags BF_TOPRIGHT) (rc_top rc + 1))
    \<and> inner_left_line uFlags
        (lines_drawn hdc (IntDrawRectEdge GetSysColor hdc rc uType uFlags))
      = LineOp (pen_of (fst (rect_edge_colors uType uFlags)))
          (GetSysColor (fst (rect_edge_colors uType uFlags)))
          (POINT (rc_left rc + 1) (rc_top rc + 1))
          (POINT (rc_left rc + 1) (rc_bottom rc - penplus uFlags BF_BOTTOMLEFT))
    \<and> inner_left_line (uFlags AND NOT BF_TOP)
        (lines_drawn hdc (IntDrawRectEdge GetSysColor hdc rc uType (uFlags AND NOT BF_TOP)))
      = LineOp (pen_of (fst (rect_edge_colors uType uFlags)))
          (GetSysColor (fst (rect_edge_colors uType uFlags)))
          (POINT (rc_left rc + 1) (rc_top rc))
          (POINT (rc_left rc + 1) (rc_bottom rc - penplus uFlags BF_BOTTOMLEFT))"
proof -
  have b: "bit uFlags 1" "bit uFlags 0"
    using assms by (simp_all add: BF_side_bits)
  have c: "bit (uFlags AND NOT BF_LEFT) 1" "bit (uFlags AND NOT BF_TOP) 0"
    using b by (simp_all add: clear_left_bit clear_top_bit)
  show ?thesis
    using b
    by (simp add: inner_top_line_eq [OF b(1)] inner_left_line_eq [OF b(2)]
        inner_top_line_eq [OF c(1)] inner_left_line_eq [OF c(2)]
        rect_edge_colors_clear_side BF_corner_bits penplus_bits clear_left_bit clear_top_bit)
qed

theorem C7_corner_moves_inner_line_ends_by_one_witness:
  "BF_RECT AND BF_TOP \<noteq> 0 \<and> BF_RECT AND BF_LEFT \<noteq> 0
   \<and> line_from (inner_top_line BF_RECT (lines_drawn example_dc
         (IntDrawRectEdge example_colors example_dc example_rc EDGE_RAISED BF_RECT)))
       = POINT 1 1
   \<and> line_from (inner_top_line (BF_RECT AND NOT BF_LEFT) (lines_drawn example_dc
         (IntDrawRectEdge example_colors example_dc example_rc EDGE_RAISED (BF_RECT AND NOT BF_LEFT))))
       = POINT 0 1
   \<and> line_from (inner_left_line BF_RECT (lines_drawn example_dc
         (IntDrawRectEdge example_colors example_dc example_rc EDGE_RAISED BF_RECT)))
       = POINT 1 1
   \<and> line_from (inner_left_line (BF_RECT AND NOT BF_TOP) (lines_drawn example_dc
         (IntDrawRectEdge example_colors example_dc example_rc EDGE_RAISED (BF_RECT AND NOT BF_TOP))))
       = POINT 1 0"
proof -
  have s: "BF_RECT AND BF_TOP \<noteq> 0" "BF_RECT AND BF_LEFT \<noteq> 0"
    by (simp_all add: bf_defs)
  show ?thesis
    using s C7_corner_moves_inner_line_ends_by_one
                [OF s, of example_dc example_colors example_rc EDGE_RAISED]
    by (simp add: example_rc_def)
qed

subsection \<open>The diagonal that ends bottom left\<close>

lemma end_bottom_left_sides:
  assumes "uFlags AND (BF_RECT OR BF_DIAGONAL) = BF_DIAGONAL_ENDBOTTOMLEFT"
  shows "uFlags AND BF_RECT = BF_BOTTOMLEFT"
proof -
  have "uFlags AND BF_RECT = (uFlags AND (BF_RECT OR BF_DIAGONAL)) AND BF_RECT"
    by (simp add: bf_defs and.assoc)
  also have "\<dots> = BF_BOTTOMLEFT"
    by (simp only: assms) (simp add: bf_defs)
  finally show ?thesis .
qed

text \<open>
  C8, as the specification states it: on a square of side \<open>N\<close> the outer diagonal runs
  from \<open>(left, bottom)\<close> to \<open>(left + N, bottom - N)\<close>. The code does not draw that line: on
  the square (0, 0, 10, 10) the outer line goes from (9, 0) to (-1, 10) and the inner line
  from (8, 0) to (-1, 9).
\<close>

theorem C8_end_bottom_left_counterexample:
  "rc_right example_rc - rc_left example_rc = 10 \<and> rc_bottom example_rc - rc_top example_rc = 10
   \<and> lines_drawn example_dc
        (IntDrawDiagEdge example_colors example_dc example_rc EDGE_RAISED BF_DIAGONAL_ENDBOTTOMLEFT)
       = [LineOp DC_PEN 21 (POINT 9 0) (POINT (- 1) 10),
          LineOp DC_PEN 16 (POINT 8 0) (POINT (- 1) 9)]
   \<and> POINT 9 0 \<noteq> POINT (rc_left example_rc + 10) (rc_bottom example_rc - 10)
   \<and> POINT (- 1) 10 \<noteq> POINT (rc_left example_rc) (rc_bottom example_rc)"
  by (simp add: lines_drawn_def drawn_by_def IntDrawDiagEdge_def diag_endpoints_def
      diag_inner_edge_def diag_edge_colors_def edge_retval_def edge_add_def edge_index_def
      table_defs bdr_defs bf_defs color_defs pen_of_def Let_def
      LineTo_def MoveToEx_def SelectPen_def SetDCPenColor_def
      example_dc_def example_rc_def example_colors_def)

text \<open>
  C8, amended. On a square of side \<open>N\<close>, with the sides and the diagonal flag of
  \<^verbatim>\<open>BF_DIAGONAL_ENDBOTTOMLEFT\<close>, \<^verbatim>\<open>IntDrawDiagEdge\<close> draws two lines: the outer one
  from \<open>(left + N - 1, bottom - N)\<close> to \<open>(left - 1, bottom)\<close>, then the inner one from
  \<open>(left + N - 2, bottom - N)\<close> to \<open>(left - 1, bottom - 1)\<close>, which starts one pixel to the
  left of the outer line's start and ends one pixel above the outer line's end.
\<close>

theorem C8_end_bottom_left_diagonals:
  assumes "uFlags AND (BF_RECT OR BF_DIAGONAL) = BF_DIAGONAL_ENDBOTTOMLEFT"
    and "rc_right rc - rc_left rc = N" and "rc_bottom rc - rc_top rc = N"
  shows "lines_drawn hdc (IntDrawDiagEdge GetSysColor hdc rc uType uFlags)
           = [LineOp (pen_of (snd (diag_edge_colors uType uFlags)))
                (GetSysColor (snd (diag_edge_colors uType uFlags)))
                (POINT (rc_left rc + N - 1) (rc_bottom rc - N)) (POINT (rc_left rc - 1) (rc_bottom rc)),
              LineOp (pen_of (fst (diag_edge_colors uType uFlags)))
                (GetSysColor (fst (diag_edge_colors uType uFlags)))
                (POINT (rc_left rc + N - 2) (rc_bottom rc - N)) (POINT (rc_left rc - 1) (rc_bottom rc - 1))]"
proof -
  note sides = end_bottom_left_sides [OF assms(1)]
  have ends: "diag_endpoints rc uFlags N
                = (rc_left rc - 1 + N, rc_bottom rc - N, rc_left rc - 1, rc_bottom rc)"
    by (simp add: diag_endpoints_def sides Let_def)
  have small: "(if rc_bottom rc - rc_top rc <s rc_right rc - rc_left rc
                then rc_bottom rc - rc_top rc else rc_right rc - rc_left rc) = N"
    by (simp add: assms(2,3))
  show ?thesis
    by (simp add: lines_drawn_def drawn_by_def IntDrawDiagEdge_def small ends
        diag_inner_edge_def assms(1) Let_def split_beta
        LineTo_def MoveToEx_def SelectPen_def SetDCPenColor_def Polygon_def SelectBrush_def
        SetDCBrushColor_def)
qed

theorem C8_end_bottom_left_diagonals_witness:
  "BF_DIAGONAL_ENDBOTTOMLEFT AND (BF_RECT OR BF_DIAGONAL) = BF_DIAGONAL_ENDBOTTOMLEFT
   \<and> rc_right example_rc - rc_left example_rc = 10 \<and> rc_bottom example_rc - rc_top example_rc = 10
   \<and> map line_from (lines_drawn example_dc
        (IntDrawDiagEdge example_colors example_dc example_rc EDGE_RAISED BF_DIAGONAL_ENDBOTTOMLEFT))
       = [POINT 9 0, POINT 8 0]
   \<and> map line_to (lines_drawn example_dc
        (IntDrawDiagEdge example_colors example_dc example_rc EDGE_RAISED BF_DIAGONAL_ENDBOTTOMLEFT))
       = [POINT (- 1) 10, POINT (- 1) 9]"
proof -
  have sel: "BF_DIAGONAL_ENDBOTTOMLEFT AND (BF_RECT OR BF_DIAGONAL) = BF_DIAGONAL_ENDBOTTOMLEFT"
    by (simp add: bf_defs)
  have sq: "rc_right example_rc - rc_left example_rc = 10"
    "rc_bottom example_rc - rc_top example_rc = 10"
    by (simp_all add: example_rc_def)
  show ?thesis
    using sel sq C8_end_bottom_left_diagonals
                   [OF sel sq, of example_dc example_colors EDGE_RAISED]
    by (simp add: example_rc_def)
qed

end
